theory Spec2Isabelle
  imports Main "HOL-Library.Word" "HOL-Library.AList"
begin

unbundle bit_operations_syntax

section \<open>The recipes API of \<^verbatim>\<open>main.go\<close>\<close>

text \<open>
  The program is four HTTP handlers over one MongoDB collection and one package-level
  slice. Each handler is embedded as a function from the request, the answers of the
  outside world during that request, and the state before, to the state after and the
  HTTP response. What the handlers call in gin, the MongoDB driver and the Go standard
  library is modelled next to them, from the behaviour of those libraries.
\<close>

subsection \<open>Go values\<close>

text \<open>
  A Go slice is either \<^verbatim>\<open>nil\<close> or a (possibly empty) sequence; \<^verbatim>\<open>len\<close> and
  \<^verbatim>\<open>range\<close> treat the two alike, \<^verbatim>\<open>encoding/json\<close> does not.
\<close>

datatype 'a slice = nil_slice | Slice "'a list"

fun elems :: "'a slice \<Rightarrow> 'a list" where
  "elems nil_slice = []"
| "elems (Slice xs) = xs"

definition make0 :: "'a slice" where
  \<comment> \<open>\<^verbatim>\<open>make([]T, 0)\<close>: empty and not nil\<close>
  "make0 = Slice []"

fun append_slice :: "'a slice \<Rightarrow> 'a \<Rightarrow> 'a slice" where
  "append_slice nil_slice x = Slice [x]"
| "append_slice (Slice xs) x = Slice (xs @ [x])"

text \<open>
  \<^verbatim>\<open>primitive.ObjectID\<close> is \<^verbatim>\<open>[12]byte\<close>, read here as one 96-bit number (first byte
  most significant). A \<^verbatim>\<open>time.Time\<close> is an instant, counted in nanoseconds from the Unix
  epoch, shown in a zone, given by its offset from UTC in seconds. The zero
  \<^verbatim>\<open>time.Time\<close> is midnight UTC of January 1 of year 1.
\<close>

type_synonym ObjectID = "96 word"

definition NilObjectID :: ObjectID where
  "NilObjectID = 0"

record Time =
  unix_nano :: int
  zone_offset :: int

definition UTC :: "int \<Rightarrow> Time" where
  "UTC ns = \<lparr>unix_nano = ns, zone_offset = 0\<rparr>"

definition zero_Time :: Time where
  "zero_Time = UTC (- 62135596800 * 1000000000)"

record Recipe =
  ID :: ObjectID
  Name :: string
  Tags :: "string slice"
  Ingredients :: "string slice"
  Instructions :: "string slice"
  PublishedAt :: Time

definition zero_Recipe :: Recipe where
  \<comment> \<open>\<^verbatim>\<open>var recipe Recipe\<close>\<close>
  "zero_Recipe = \<lparr>ID = NilObjectID, Name = [], Tags = nil_slice, Ingredients = nil_slice,
     Instructions = nil_slice, PublishedAt = zero_Time\<rparr>"

subsection \<open>\<^verbatim>\<open>strings.EqualFold\<close>\<close>

text \<open>
  The standard library compares byte by byte while both bytes are ASCII: equal bytes, or
  an upper-case letter and its lower-case form. At the first byte that is not ASCII it
  goes on rune by rune with the Unicode tables; that part is the parameter
  \<open>hasUnicode\<close>, applied to what is left of the two strings. When one string is
  used up the answer is whether both are.
\<close>

fun EqualFold :: "(string \<Rightarrow> string \<Rightarrow> bool) \<Rightarrow> string \<Rightarrow> string \<Rightarrow> bool" where
  "EqualFold hasUnicode (sr # s) (tr # t) =
     (if (128::nat) \<le> of_char sr \<or> (128::nat) \<le> of_char tr then hasUnicode (sr # s) (tr # t)
      else if tr = sr then EqualFold hasUnicode s t
      else let lo = min (of_char sr) (of_char tr) :: nat;
               hi = max (of_char sr) (of_char tr) :: nat
           in if 65 \<le> lo \<and> lo \<le> 90 \<and> hi = lo + 32 then EqualFold hasUnicode s t
              else False)"
| "EqualFold hasUnicode s t = (length s = length t)"

subsection \<open>Object ids: \<^verbatim>\<open>ObjectIDFromHex\<close>, \<^verbatim>\<open>Hex\<close>, \<^verbatim>\<open>NewObjectID\<close>\<close>

text \<open>
  \<^verbatim>\<open>primitive.ObjectIDFromHex\<close> refuses a string that is not 24 bytes long, then decodes it
  with \<^verbatim>\<open>hex.Decode\<close>, which refuses any byte that is not a hexadecimal digit. On either
  refusal the object id returned is \<^verbatim>\<open>NilObjectID\<close>.
\<close>

definition fromHexChar :: "char \<Rightarrow> nat option" where
  "fromHexChar c =
     (let n = of_char c :: nat
      in if 48 \<le> n \<and> n \<le> 57 then Some (n - 48)
         else if 97 \<le> n \<and> n \<le> 102 then Some (n - 97 + 10)
         else if 65 \<le> n \<and> n \<le> 70 then Some (n - 65 + 10)
         else None)"

fun hex_Decode :: "ObjectID \<Rightarrow> string \<Rightarrow> ObjectID option" where
  "hex_Decode acc [] = Some acc"
| "hex_Decode acc (c # cs) =
     (case fromHexChar c of
        None \<Rightarrow> None
      | Some d \<Rightarrow> hex_Decode (acc * 16 + of_nat d) cs)"

definition ObjectIDFromHex :: "string \<Rightarrow> ObjectID \<times> string option" where
  "ObjectIDFromHex s =
     (if length s \<noteq> 24 then (NilObjectID, Some ''the provided hex string is not a valid ObjectID'')
      else case hex_Decode 0 s of
             None \<Rightarrow> (NilObjectID, Some ''encoding/hex: invalid byte'')
           | Some oid \<Rightarrow> (oid, None))"

text \<open>\<^verbatim>\<open>ObjectID.Hex\<close>: the 24 lower-case hexadecimal digits of the twelve bytes.\<close>

definition hex_digit :: "nat \<Rightarrow> char" where
  "hex_digit d = (if d < 10 then char_of (48 + d) else char_of (87 + d))"

fun hex_digits :: "nat \<Rightarrow> ObjectID \<Rightarrow> string" where
  "hex_digits 0 w = []"
| "hex_digits (Suc k) w = hex_digits k (drop_bit 4 w) @ [hex_digit (unat (take_bit 4 w))]"

definition Hex :: "ObjectID \<Rightarrow> string" where
  "Hex oid = hex_digits 24 oid"

text \<open>
  \<^verbatim>\<open>primitive.NewObjectID\<close> reads the clock and writes, in this order, the four bytes of
  the Unix second (cut to 32 bits), the five bytes drawn at random when the process
  started, and the low three bytes of a 32-bit counter of the process, which it has
  first increased by one.
\<close>

definition NewObjectIDFromTimestamp :: "40 word \<Rightarrow> 32 word \<Rightarrow> Time \<Rightarrow> ObjectID" where
  "NewObjectIDFromTimestamp unique counter timestamp =
     push_bit 64 (ucast (word_of_int (unix_nano timestamp div 1000000000) :: 32 word))
       OR push_bit 24 (ucast unique)
       OR ucast (take_bit 24 counter)"

subsection \<open>BSON documents and the collection\<close>

text \<open>
  A document is a sequence of named values. The collection holds documents of any shape:
  the database is shared with whoever else writes to it.
\<close>

datatype bson =
    B_ObjectID ObjectID
  | B_String string
  | B_Array "bson list"
  | B_DateTime int
  | B_Int32 int
  | B_Null

type_synonym doc = "(string \<times> bson) list"

definition bson_strings :: "string slice \<Rightarrow> bson" where
  \<comment> \<open>the driver writes a nil slice as null\<close>
  "bson_strings s = (case s of nil_slice \<Rightarrow> B_Null | Slice xs \<Rightarrow> B_Array (map B_String xs))"

definition bson_Recipe :: "Recipe \<Rightarrow> doc" where
  \<comment> \<open>the \<^verbatim>\<open>bson\<close> struct tags of \<^verbatim>\<open>Recipe\<close>; a BSON date counts milliseconds\<close>
  "bson_Recipe r =
     [(''_id'', B_ObjectID (ID r)),
      (''name'', B_String (Name r)),
      (''tags'', bson_strings (Tags r)),
      (''ingredients'', bson_strings (Ingredients r)),
      (''instructions'', bson_strings (Instructions r)),
      (''publishedAt'', B_DateTime (unix_nano (PublishedAt r) div 1000000))]"

text \<open>
  The three calls on the collection. Each may fail for reasons outside the program
  (\<open>fault\<close>: the error the driver returns, if any); a failed call leaves the collection as
  it was. \<^verbatim>\<open>InsertOne\<close> is also refused when the \<^verbatim>\<open>_id\<close> is already taken: MongoDB keeps
  \<^verbatim>\<open>_id\<close> unique. \<^verbatim>\<open>UpdateOne\<close> applies \<^verbatim>\<open>$set\<close> to the first document that has every
  field of the filter, and reports no error when there is none.
\<close>

definition Find :: "doc list \<Rightarrow> string option \<Rightarrow> string + doc list" where
  "Find coll fault = (case fault of Some e \<Rightarrow> Inl e | None \<Rightarrow> Inr coll)"

definition InsertOne :: "doc list \<Rightarrow> doc \<Rightarrow> string option \<Rightarrow> doc list \<times> string option" where
  "InsertOne coll d fault =
     (case fault of
        Some e \<Rightarrow> (coll, Some e)
      | None \<Rightarrow>
          if map_of d ''_id'' \<in> set (map (\<lambda>x. map_of x ''_id'') coll)
          then (coll, Some ''E11000 duplicate key error'')
          else (coll @ [d], None))"

definition matches :: "doc \<Rightarrow> doc \<Rightarrow> bool" where
  "matches flt d = list_all (\<lambda>(k, v). map_of d k = Some v) flt"

fun set_fields :: "doc \<Rightarrow> doc \<Rightarrow> doc" where
  "set_fields [] d = d"
| "set_fields ((k, v) # kvs) d = set_fields kvs (AList.update k v d)"

fun update_first :: "doc \<Rightarrow> doc \<Rightarrow> doc list \<Rightarrow> doc list" where
  "update_first flt upd [] = []"
| "update_first flt upd (d # ds) =
     (if matches flt d then set_fields upd d # ds else d # update_first flt upd ds)"

definition UpdateOne :: "doc list \<Rightarrow> doc \<Rightarrow> doc \<Rightarrow> string option \<Rightarrow> doc list \<times> string option" where
  "UpdateOne coll flt upd fault =
     (case fault of Some e \<Rightarrow> (coll, Some e) | None \<Rightarrow> (update_first flt upd coll, None))"

subsection \<open>JSON responses\<close>

text \<open>
  \<^verbatim>\<open>encoding/json\<close> writes a nil slice as \<^verbatim>\<open>null\<close> and any other slice as an array.
  Object ids and times are written as strings by their own marshallers and kept as
  leaves here. The marshaller of \<^verbatim>\<open>time.Time\<close> refuses a time whose year, read in the
  time's zone, is not within 0 to 9999, and one whose zone is a day or more from UTC;
  the encoding of a value that holds such a time fails as a whole.
\<close>

datatype json =
    J_null
  | J_string string
  | J_array "json list"
  | J_object "(string \<times> json) list"
  | J_ObjectID ObjectID
  | J_Time Time

definition json_Time_ok :: "Time \<Rightarrow> bool" where
  "json_Time_ok t =
     (let sec = unix_nano t div 1000000000 + zone_offset t
      in - 62167219200 \<le> sec \<and> sec < 253402300800 \<and> \<bar>zone_offset t\<bar> < 86400)"

definition json_strings :: "string slice \<Rightarrow> json" where
  "json_strings s = (case s of nil_slice \<Rightarrow> J_null | Slice xs \<Rightarrow> J_array (map J_string xs))"

definition json_object_Recipe :: "Recipe \<Rightarrow> json" where
  \<comment> \<open>the \<^verbatim>\<open>json\<close> struct tags of \<^verbatim>\<open>Recipe\<close>\<close>
  "json_object_Recipe r =
     J_object
       [(''id'', J_ObjectID (ID r)),
        (''name'', J_string (Name r)),
        (''tags'', json_strings (Tags r)),
        (''ingredients'', json_strings (Ingredients r)),
        (''instructions'', json_strings (Instructions r)),
        (''publishedAt'', J_Time (PublishedAt r))]"

definition json_Recipe :: "Recipe \<Rightarrow> json option" where
  "json_Recipe r = (if json_Time_ok (PublishedAt r) then Some (json_object_Recipe r) else None)"

fun json_list :: "Recipe list \<Rightarrow> json list option" where
  "json_list [] = Some []"
| "json_list (r # rs) =
     (case json_Recipe r of
        None \<Rightarrow> None
      | Some j \<Rightarrow> (case json_list rs of None \<Rightarrow> None | Some js \<Rightarrow> Some (j # js)))"

definition json_Recipes :: "Recipe slice \<Rightarrow> json option" where
  "json_Recipes s =
     (case s of
        nil_slice \<Rightarrow> Some J_null
      | Slice rs \<Rightarrow> (case json_list rs of None \<Rightarrow> None | Some js \<Rightarrow> Some (J_array js)))"

definition gin_H :: "string \<Rightarrow> string \<Rightarrow> json option" where
  \<comment> \<open>the encoding of \<^verbatim>\<open>gin.H{key: text}\<close>, which cannot fail\<close>
  "gin_H k v = Some (J_object [(k, J_string v)])"

text \<open>
  \<^verbatim>\<open>c.JSON\<close> sets the status and writes the encoding of the value as the body. When the
  encoding fails gin notes the error and aborts: the status stands and no body is
  written.
\<close>

record Response =
  status :: nat
  body :: "json option"

definition StatusOK :: nat where "StatusOK = 200"
definition StatusBadRequest :: nat where "StatusBadRequest = 400"
definition StatusInternalServerError :: nat where "StatusInternalServerError = 500"

definition JSON :: "nat \<Rightarrow> json option \<Rightarrow> Response" where
  "JSON code encoded = \<lparr>status = code, body = encoded\<rparr>"

subsection \<open>Requests, the outside world, the state\<close>

text \<open>
  A request body is kept as \<^verbatim>\<open>ShouldBindJSON\<close> reads it. The binding decodes the first
  JSON value of the body into a zero \<^verbatim>\<open>Recipe\<close> and reads no further: \<open>first_value\<close> is
  what that makes of the first value, the error text (the value is missing, malformed,
  or does not fit the structure) or the recipe it denotes, and \<open>trailing\<close> is the bytes
  of the body after that value. The body is well-formed JSON for the structure when
  the first value binds and nothing but white space follows it.
\<close>

record Body =
  first_value :: "string + Recipe"
  trailing :: string



text \<open>
  Of a request the handlers read the path parameters, the query string and the body.
  \<^verbatim>\<open>c.Param\<close> and \<^verbatim>\<open>c.Query\<close> give the empty string for a name that is absent.
\<close>

record Context =
  params :: "(string \<times> string) list"
  query :: "(string \<times> string) list"
  request_body :: Body

definition Param :: "Context \<Rightarrow> string \<Rightarrow> string" where
  "Param c k = (case map_of (params c) k of Some v \<Rightarrow> v | None \<Rightarrow> [])"

definition Query :: "Context \<Rightarrow> string \<Rightarrow> string" where
  "Query c k = (case map_of (query c) k of Some v \<Rightarrow> v | None \<Rightarrow> [])"

definition ShouldBindJSON :: "Context \<Rightarrow> string + Recipe" where
  "ShouldBindJSON c = first_value (request_body c)"

text \<open>
  What the world answers during one request: the clock as \<^verbatim>\<open>primitive.NewObjectID()\<close>
  reads it, the clock as the handler's \<^verbatim>\<open>time.Now()\<close> reads it, and the error, if any,
  of the one call the handler makes on the collection.
\<close>

record Env =
  id_clock :: Time
  Now :: Time
  fault :: "string option"

text \<open>
  The state between requests: the package-level variables \<^verbatim>\<open>recipes\<close> and \<^verbatim>\<open>err\<close>, the
  \<^verbatim>\<open>recipes\<close> collection of the database, the lines printed by \<^verbatim>\<open>fmt.Println\<close>, and the
  two package-level variables of the driver from which object ids are made.
\<close>

record State =
  recipes :: "Recipe slice"
  err :: "string option"
  collection :: "doc list"
  stdout :: "string list"
  objectIDCounter :: "32 word"
  processUnique :: "40 word"

definition NewObjectID :: "State \<Rightarrow> Env \<Rightarrow> ObjectID" where
  \<comment> \<open>the id the next call of \<^verbatim>\<open>primitive.NewObjectID()\<close> returns\<close>
  "NewObjectID s env =
     NewObjectIDFromTimestamp (processUnique s) (objectIDCounter s + 1) (id_clock env)"

subsection \<open>\<^verbatim>\<open>cur.Decode\<close>\<close>

text \<open>
  \<^verbatim>\<open>cur.Decode(&recipe)\<close> writes into the recipe it is given and returns an error or
  none. The handler is defined over any such function. \<open>Decode_struct\<close> is the driver's
  way for the BSON types above. The elements of the document are taken in order. An
  element is for the field whose \<^verbatim>\<open>bson\<close> name is the element's key or, failing that, the
  key in lower case (\<^verbatim>\<open>strings.ToLower\<close>, a parameter); an element for no field is
  skipped. A null sets the field to its zero value. An object id field also takes a
  string, of 24 hexadecimal digits or else of 12 raw bytes; a string field also takes
  an object id, as its hexadecimal digits; a time field also takes a string, which
  \<^verbatim>\<open>time.Parse\<close> reads (a parameter, giving the instant), and every decoded time is
  shown in UTC. The first element whose value does not fit its field ends the decoding
  with an error, the fields written so far staying written.
\<close>

type_synonym decoder = "doc \<Rightarrow> Recipe \<Rightarrow> Recipe \<times> string option"

definition decode_string :: "bson \<Rightarrow> string option" where
  "decode_string v =
     (case v of
        B_String x \<Rightarrow> Some x
      | B_ObjectID i \<Rightarrow> Some (Hex i)
      | B_Null \<Rightarrow> Some []
      | _ \<Rightarrow> None)"

fun decode_strings :: "bson list \<Rightarrow> string list option" where
  "decode_strings [] = Some []"
| "decode_strings (v # vs) =
     (case decode_string v of
        None \<Rightarrow> None
      | Some x \<Rightarrow> (case decode_strings vs of None \<Rightarrow> None | Some xs \<Rightarrow> Some (x # xs)))"

definition decode_slice :: "bson \<Rightarrow> string slice option" where
  "decode_slice v =
     (case v of
        B_Array vs \<Rightarrow> map_option Slice (decode_strings vs)
      | B_Null \<Rightarrow> Some nil_slice
      | _ \<Rightarrow> None)"

definition raw_bytes :: "string \<Rightarrow> ObjectID" where
  "raw_bytes x = foldl (\<lambda>acc b. acc * 256 + of_char b) 0 x"

definition decode_ObjectID :: "bson \<Rightarrow> ObjectID option" where
  "decode_ObjectID v =
     (case v of
        B_ObjectID i \<Rightarrow> Some i
      | B_String x \<Rightarrow>
          (case snd (ObjectIDFromHex x) of
             None \<Rightarrow> Some (fst (ObjectIDFromHex x))
           | Some e \<Rightarrow> if length x = 12 then Some (raw_bytes x) else None)
      | B_Null \<Rightarrow> Some NilObjectID
      | _ \<Rightarrow> None)"

definition decode_Time :: "(string \<Rightarrow> int option) \<Rightarrow> bson \<Rightarrow> Time option" where
  "decode_Time Parse v =
     (case v of
        B_DateTime ms \<Rightarrow> Some (UTC (ms * 1000000))
      | B_String x \<Rightarrow> map_option UTC (Parse x)
      | B_Null \<Rightarrow> Some zero_Time
      | _ \<Rightarrow> None)"

definition field_names :: "string list" where
  "field_names = [''_id'', ''name'', ''tags'', ''ingredients'', ''instructions'', ''publishedAt'']"

definition field_of_key :: "(string \<Rightarrow> string) \<Rightarrow> string \<Rightarrow> string option" where
  "field_of_key ToLower k =
     (if k \<in> set field_names then Some k
      else if ToLower k \<in> set field_names then Some (ToLower k)
      else None)"

definition decode_element ::
  "(string \<Rightarrow> string) \<Rightarrow> (string \<Rightarrow> int option) \<Rightarrow> string \<times> bson \<Rightarrow> Recipe
     \<Rightarrow> Recipe \<times> string option" where
  "decode_element ToLower Parse kv r =
     (case field_of_key ToLower (fst kv) of
        None \<Rightarrow> (r, None)
      | Some f \<Rightarrow>
          let v = snd kv; failed = (r, Some (''error decoding key '' @ f))
          in if f = ''_id'' then
               (case decode_ObjectID v of Some x \<Rightarrow> (r\<lparr>ID := x\<rparr>, None) | None \<Rightarrow> failed)
             else if f = ''name'' then
               (case decode_string v of Some x \<Rightarrow> (r\<lparr>Name := x\<rparr>, None) | None \<Rightarrow> failed)
             else if f = ''tags'' then
               (case decode_slice v of Some x \<Rightarrow> (r\<lparr>Tags := x\<rparr>, None) | None \<Rightarrow> failed)
             else if f = ''ingredients'' then
               (case decode_slice v of Some x \<Rightarrow> (r\<lparr>Ingredients := x\<rparr>, None)
                                      | None \<Rightarrow> failed)
             else if f = ''instructions'' then
               (case decode_slice v of Some x \<Rightarrow> (r\<lparr>Instructions := x\<rparr>, None)
                                      | None \<Rightarrow> failed)
             else
               (case decode_Time Parse v of Some x \<Rightarrow> (r\<lparr>PublishedAt := x\<rparr>, None)
                                          | None \<Rightarrow> failed))"

fun Decode_struct :: "(string \<Rightarrow> string) \<Rightarrow> (string \<Rightarrow> int option) \<Rightarrow> decoder" where
  "Decode_struct ToLower Parse [] r = (r, None)"
| "Decode_struct ToLower Parse (kv # d) r =
     (case decode_element ToLower Parse kv r of
        (r', Some e) \<Rightarrow> (r', Some e)
      | (r', None) \<Rightarrow> Decode_struct ToLower Parse d r')"

subsection \<open>The handlers\<close>

text \<open>
  \<^verbatim>\<open>ListRecipeHandler\<close>. The \<^verbatim>\<open>recipes\<close> it fills is its own variable, declared with
  \<^verbatim>\<open>:=\<close>, and so is its \<^verbatim>\<open>err\<close>; the package-level variables of those names are not
  touched. The loop runs once for each document of the cursor; the error of
  \<^verbatim>\<open>cur.Decode\<close> is dropped.
\<close>

fun cursor_loop :: "decoder \<Rightarrow> doc list \<Rightarrow> Recipe slice \<Rightarrow> Recipe slice" where
  "cursor_loop Decode [] local_recipes = local_recipes"
| "cursor_loop Decode (d # cur) local_recipes =
     (let recipe = fst (Decode d zero_Recipe)
      in cursor_loop Decode cur (append_slice local_recipes recipe))"

definition ListRecipeHandler :: "decoder \<Rightarrow> Env \<Rightarrow> State \<Rightarrow> State \<times> Response" where
  "ListRecipeHandler Decode env s =
     (case Find (collection s) (fault env) of
        Inl e \<Rightarrow> (s, JSON StatusInternalServerError (gin_H ''error'' e))
      | Inr cur \<Rightarrow>
          let local_recipes = cursor_loop Decode cur make0
          in (s, JSON StatusOK (json_Recipes local_recipes)))"

text \<open>
  \<^verbatim>\<open>NewRecipeHandler\<close>. The \<^verbatim>\<open>err\<close> of the binding lives in the \<^verbatim>\<open>if\<close> statement; the
  \<^verbatim>\<open>err\<close> assigned from \<^verbatim>\<open>InsertOne\<close> is the package-level one. The call of
  \<^verbatim>\<open>primitive.NewObjectID()\<close> increases the driver's counter.
\<close>

definition NewRecipeHandler :: "Context \<Rightarrow> Env \<Rightarrow> State \<Rightarrow> State \<times> Response" where
  "NewRecipeHandler c env s =
     (case ShouldBindJSON c of
        Inl e \<Rightarrow> (s, JSON StatusBadRequest (gin_H ''error'' e))
      | Inr bound_recipe \<Rightarrow>
          let recipe = bound_recipe\<lparr>ID := NewObjectID s env\<rparr>;
              s = s\<lparr>objectIDCounter := objectIDCounter s + 1\<rparr>;
              recipe = recipe\<lparr>PublishedAt := Now env\<rparr>;
              ins = InsertOne (collection s) (bson_Recipe recipe) (fault env);
              s = s\<lparr>collection := fst ins, err := snd ins\<rparr>
          in (case snd ins of
                Some e \<Rightarrow>
                  (s\<lparr>stdout := stdout s @ [e]\<rparr>,
                   JSON StatusInternalServerError
                     (gin_H ''error'' ''Error while inserting a new recipe''))
              | None \<Rightarrow> (s, JSON StatusOK (json_Recipe recipe))))"

text \<open>
  \<^verbatim>\<open>SearchRecipesHandler\<close> reads the package-level \<^verbatim>\<open>recipes\<close>. The inner loop looks at
  every tag and has no \<^verbatim>\<open>break\<close>.
\<close>

fun tags_loop :: "(string \<Rightarrow> string \<Rightarrow> bool) \<Rightarrow> string list \<Rightarrow> string \<Rightarrow> bool \<Rightarrow> bool" where
  "tags_loop hasUnicode [] tag found = found"
| "tags_loop hasUnicode (t # ts) tag found =
     tags_loop hasUnicode ts tag (if EqualFold hasUnicode t tag then True else found)"

fun search_loop ::
  "(string \<Rightarrow> string \<Rightarrow> bool) \<Rightarrow> Recipe list \<Rightarrow> string \<Rightarrow> Recipe slice \<Rightarrow> Recipe slice" where
  "search_loop hasUnicode [] tag listOfRecipes = listOfRecipes"
| "search_loop hasUnicode (r # rs) tag listOfRecipes =
     (let found = tags_loop hasUnicode (elems (Tags r)) tag False
      in search_loop hasUnicode rs tag
           (if found then append_slice listOfRecipes r else listOfRecipes))"

definition SearchRecipesHandler ::
  "(string \<Rightarrow> string \<Rightarrow> bool) \<Rightarrow> Context \<Rightarrow> State \<Rightarrow> State \<times> Response" where
  "SearchRecipesHandler hasUnicode c s =
     (let tag = Query c ''tag'';
          listOfRecipes = search_loop hasUnicode (elems (recipes s)) tag make0
      in (s, JSON StatusOK (json_Recipes listOfRecipes)))"

text \<open>
  \<^verbatim>\<open>UpdateRecipeHandler\<close>. The error of \<^verbatim>\<open>ObjectIDFromHex\<close> is dropped; the id it returns
  goes into the filter whatever the error.
\<close>

definition UpdateRecipeHandler :: "Context \<Rightarrow> Env \<Rightarrow> State \<Rightarrow> State \<times> Response" where
  "UpdateRecipeHandler c env s =
     (let id = Param c ''id''
      in case ShouldBindJSON c of
           Inl e \<Rightarrow> (s, JSON StatusBadRequest (gin_H ''error'' e))
         | Inr recipe \<Rightarrow>
             let objectId = fst (ObjectIDFromHex id);
                 upd = UpdateOne (collection s)
                         [(''_id'', B_ObjectID objectId)]
                         [(''name'', B_String (Name recipe)),
                          (''instructions'', bson_strings (Instructions recipe)),
                          (''ingredients'', bson_strings (Ingredients recipe)),
                          (''tags'', bson_strings (Tags recipe))]
                         (fault env);
                 s = s\<lparr>collection := fst upd, err := snd upd\<rparr>
             in (case snd upd of
                   Some e \<Rightarrow>
                     (s\<lparr>stdout := stdout s @ [e]\<rparr>,
                      JSON StatusInternalServerError (gin_H ''error'' e))
                 | None \<Rightarrow>
                     (s, JSON StatusOK (gin_H ''message'' ''Recipe has been updated''))))"

subsection \<open>The running program\<close>

text \<open>
  \<^verbatim>\<open>main\<close> routes requests to the four handlers and to nothing else. The program starts
  with \<^verbatim>\<open>recipes\<close> nil and, once \<^verbatim>\<open>init\<close> has passed its ping, \<^verbatim>\<open>err\<close> nil, over whatever
  the collection holds and whatever the driver drew for its counter and its five
  bytes; between requests other clients of the database may change the collection.
\<close>

inductive reachable :: "State \<Rightarrow> bool" where
  start: "reachable \<lparr>recipes = nil_slice, err = None, collection = coll, stdout = [],
                      objectIDCounter = n, processUnique = u\<rparr>"
| list: "reachable s \<Longrightarrow> reachable (fst (ListRecipeHandler Decode env s))"
| new: "reachable s \<Longrightarrow> reachable (fst (NewRecipeHandler c env s))"
| search: "reachable s \<Longrightarrow> reachable (fst (SearchRecipesHandler hasUnicode c s))"
| update: "reachable s \<Longrightarrow> reachable (fst (UpdateRecipeHandler c env s))"
| others: "reachable s \<Longrightarrow> reachable (s\<lparr>collection := coll\<rparr>)"

subsection \<open>Case-insensitive equality, as the specification words it\<close>

text \<open>
  For ASCII text, two strings are equal without regard to case when they are equal once
  every upper-case letter is replaced by its lower-case form.
\<close>

definition ascii_lower :: "char \<Rightarrow> char" where
  "ascii_lower c =
     (let n = of_char c :: nat in if 65 \<le> n \<and> n \<le> 90 then char_of (n + 32) else c)"


subsection \<open>Sample requests and states\<close>

text \<open>
  The recipe of the specification's examples, sent with an id and a date of the
  caller's own; a world that answers, one whose database is down, and one whose clock
  stands at the first second of year 10000.
\<close>

definition ascii_only :: "string \<Rightarrow> string \<Rightarrow> bool" where
  \<comment> \<open>stands for the Unicode part where the strings are ASCII and it is never asked\<close>
  "ascii_only s t = False"

definition ascii_ToLower :: "string \<Rightarrow> string" where
  \<comment> \<open>\<^verbatim>\<open>strings.ToLower\<close> on ASCII text\<close>
  "ascii_ToLower k = map ascii_lower k"

definition no_Parse :: "string \<Rightarrow> int option" where
  \<comment> \<open>stands for \<^verbatim>\<open>time.Parse\<close> where no date is a string and it is never asked\<close>
  "no_Parse x = None"

definition pasta :: Recipe where
  "pasta = \<lparr>ID = 7, Name = ''Pasta'', Tags = Slice [''italian''],
     Ingredients = Slice [''pasta'', ''water''], Instructions = Slice [''boil''],
     PublishedAt = UTC 5\<rparr>"

definition soup :: Recipe where
  "soup = \<lparr>ID = 8, Name = ''Soup'', Tags = Slice [[]],
     Ingredients = Slice [''water''], Instructions = nil_slice, PublishedAt = UTC 6\<rparr>"

definition state0 :: State where
  "state0 = \<lparr>recipes = nil_slice, err = None, collection = [], stdout = [],
     objectIDCounter = 15, processUnique = 0x0102030405\<rparr>"

definition env_ok :: Env where
  "env_ok = \<lparr>id_clock = \<lparr>unix_nano = 1700000000123000000, zone_offset = 3600\<rparr>,
     Now = \<lparr>unix_nano = 1700000000123456789, zone_offset = 3600\<rparr>, fault = None\<rparr>"

definition env_down :: Env where
  "env_down = \<lparr>id_clock = \<lparr>unix_nano = 1700000000123000000, zone_offset = 3600\<rparr>,
     Now = \<lparr>unix_nano = 1700000000123456789, zone_offset = 3600\<rparr>,
     fault = Some ''connection refused''\<rparr>"


definition body_pasta :: Body where
  "body_pasta = \<lparr>first_value = Inr pasta, trailing = []\<rparr>"


definition body_truncated :: Body where
  "body_truncated = \<lparr>first_value = Inl ''unexpected EOF'', trailing = []\<rparr>"

definition post_pasta :: Context where
  "post_pasta = \<lparr>params = [], query = [], request_body = body_pasta\<rparr>"



definition get_search :: "string \<Rightarrow> Context" where
  "get_search tag = \<lparr>params = [], query = [(''tag'', tag)], request_body = body_truncated\<rparr>"


definition put_pasta :: "string \<Rightarrow> Context" where
  "put_pasta hex = \<lparr>params = [(''id'', hex)], query = [], request_body = body_pasta\<rparr>"

definition doc_old :: doc where
  "doc_old = [(''_id'', B_ObjectID 0x6543210fedcba9876543210f), (''name'', B_String ''Old''),
     (''tags'', B_Null), (''ingredients'', B_Null), (''instructions'', B_Null),
     (''publishedAt'', B_DateTime 1600000000000)]"

definition doc_other :: doc where
  "doc_other = [(''_id'', B_ObjectID 0x0123456789abcdef01234567), (''name'', B_String ''Other''),
     (''publishedAt'', B_DateTime 1500000000000)]"

definition doc_nil_id :: doc where
  "doc_nil_id = [(''_id'', B_ObjectID 0), (''name'', B_String ''Zero'')]"

definition doc_bad_tags :: doc where
  "doc_bad_tags = [(''_id'', B_ObjectID 3), (''name'', B_String ''Stew''), (''tags'', B_Int32 42)]"

definition doc_bad_id :: doc where
  "doc_bad_id = [(''_id'', B_Int32 1), (''name'', B_String ''Late'')]"

definition doc_year_10000 :: doc where
  "doc_year_10000 = [(''_id'', B_ObjectID 4), (''name'', B_String ''Far''),
     (''publishedAt'', B_DateTime 253402300800000)]"

definition state_cached :: State where
  \<comment> \<open>a state with a filled cache, as the search handler would see one\<close>
  "state_cached = \<lparr>recipes = Slice [soup, pasta], err = None, collection = [], stdout = [],
     objectIDCounter = 15, processUnique = 0x0102030405\<rparr>"

definition state_stored :: State where
  "state_stored = \<lparr>recipes = nil_slice, err = None, collection = [doc_other, doc_old],
     stdout = [], objectIDCounter = 15, processUnique = 0x0102030405\<rparr>"

definition state_nil_id :: State where
  "state_nil_id = \<lparr>recipes = nil_slice, err = None, collection = [doc_nil_id], stdout = [],
     objectIDCounter = 15, processUnique = 0x0102030405\<rparr>"

definition state_bad_tags :: State where
  "state_bad_tags = \<lparr>recipes = nil_slice, err = None, collection = [doc_bad_tags],
     stdout = [], objectIDCounter = 15, processUnique = 0x0102030405\<rparr>"

definition state_bad_id :: State where
  "state_bad_id = \<lparr>recipes = nil_slice, err = None, collection = [doc_bad_id, doc_nil_id],
     stdout = [], objectIDCounter = 15, processUnique = 0x0102030405\<rparr>"

definition state_year_10000 :: State where
  "state_year_10000 = \<lparr>recipes = nil_slice, err = None, collection = [doc_year_10000],
     stdout = [], objectIDCounter = 15, processUnique = 0x0102030405\<rparr>"

section \<open>Properties\<close>

subsection \<open>Encoding\<close>

lemma json_list_eq:
  "json_list rs =
     (if list_all (\<lambda>r. json_Time_ok (PublishedAt r)) rs then Some (map json_object_Recipe rs)
      else None)"
  by (induction rs) (simp_all add: json_Recipe_def)

lemma json_Recipes_Slice:
  "json_Recipes (Slice rs) =
     (if list_all (\<lambda>r. json_Time_ok (PublishedAt r)) rs
      then Some (J_array (map json_object_Recipe rs)) else None)"
  by (simp add: json_Recipes_def json_list_eq)

subsection \<open>The search loops\<close>




lemma char_eq_char_of: "c = char_of (n::nat) \<longleftrightarrow> of_char c = take_bit 8 n"
  by (metis char_of_eq_iff)


lemma tags_loop_eq:
  "tags_loop U ts tag found \<longleftrightarrow> found \<or> (\<exists>t\<in>set ts. EqualFold U t tag)"
  by (induction ts arbitrary: found) auto

lemma search_loop_eq:
  "search_loop U rs tag (Slice acc) =
     Slice (acc @ filter (\<lambda>r. \<exists>t\<in>set (elems (Tags r)). EqualFold U t tag) rs)"
  by (induction rs arbitrary: acc) (simp_all add: tags_loop_eq)

lemma SearchRecipesHandler_eq:
  "SearchRecipesHandler U c s =
     (s, JSON StatusOK (json_Recipes (Slice
           (filter (\<lambda>r. \<exists>t\<in>set (elems (Tags r)). EqualFold U t (Query c ''tag''))
              (elems (recipes s))))))"
  by (simp add: SearchRecipesHandler_def make0_def search_loop_eq)

subsection \<open>The cache\<close>

lemma ListRecipeHandler_state: "fst (ListRecipeHandler Decode env s) = s"
  by (simp add: ListRecipeHandler_def Let_def split: sum.splits)

lemma NewRecipeHandler_recipes: "recipes (fst (NewRecipeHandler c env s)) = recipes s"
  by (simp add: NewRecipeHandler_def Let_def split: sum.splits option.splits)

lemma UpdateRecipeHandler_recipes: "recipes (fst (UpdateRecipeHandler c env s)) = recipes s"
  by (simp add: UpdateRecipeHandler_def Let_def split: sum.splits option.splits)

lemma SearchRecipesHandler_state: "fst (SearchRecipesHandler U c s) = s"
  by (simp add: SearchRecipesHandler_def Let_def)

lemma reachable_recipes_nil: "reachable s \<Longrightarrow> recipes s = nil_slice"
  by (induction rule: reachable.induct)
     (simp_all add: ListRecipeHandler_state NewRecipeHandler_recipes
        UpdateRecipeHandler_recipes SearchRecipesHandler_state)

lemma reachable_after_create: "reachable (fst (NewRecipeHandler c env state0))"
  unfolding state0_def by (rule reachable.new [OF reachable.start])

text \<open>
  C8. In every state the running program can reach, the package-level \<^verbatim>\<open>recipes\<close> is nil:
  no handler assigns it, the list handler filling a variable of its own. So the search
  answers every query with status 200 and the empty list, whatever the collection holds.
\<close>

theorem search_cache_never_assigned:
  assumes "reachable s"
  shows "recipes s = nil_slice \<and>
         SearchRecipesHandler U c s = (s, \<lparr>status = 200, body = Some (J_array [])\<rparr>)"
  using reachable_recipes_nil [OF assms]
  by (simp add: SearchRecipesHandler_eq json_Recipes_Slice JSON_def StatusOK_def)

text \<open>
  After pasta has been created, the collection holds it and the search for its tag finds
  nothing.
\<close>

theorem search_cache_never_assigned_witness:
  "reachable (fst (NewRecipeHandler post_pasta env_ok state0))
   \<and> collection (fst (NewRecipeHandler post_pasta env_ok state0)) \<noteq> []
   \<and> recipes (fst (NewRecipeHandler post_pasta env_ok state0)) = nil_slice
   \<and> body (snd (SearchRecipesHandler ascii_only (get_search ''italian'')
               (fst (NewRecipeHandler post_pasta env_ok state0)))) = Some (J_array [])"
proof -
  have r: "reachable (fst (NewRecipeHandler post_pasta env_ok state0))"
    by (rule reachable_after_create)
  have c: "collection (fst (NewRecipeHandler post_pasta env_ok state0)) \<noteq> []"
    by (simp add: NewRecipeHandler_def ShouldBindJSON_def InsertOne_def post_pasta_def
        body_pasta_def env_ok_def state0_def Let_def)
  from r c search_cache_never_assigned [OF r, of ascii_only "get_search ''italian''"]
  show ?thesis by simp
qed

subsection \<open>Search\<close>





subsection \<open>Empty results\<close>

text \<open>
  C9. When the query yields no document, the list handler answers with the JSON array
  \<^verbatim>\<open>[]\<close>; when no cached recipe matches, so does the search handler. Both start from
  \<^verbatim>\<open>make([]Recipe, 0)\<close>, which is written as an array; a nil slice would be written
  \<^verbatim>\<open>null\<close>.
\<close>

theorem empty_result_is_array:
  "(Find (collection s) (fault env) = Inr [] \<longrightarrow>
      snd (ListRecipeHandler Decode env s) = \<lparr>status = 200, body = Some (J_array [])\<rparr>)
   \<and> ((\<forall>r\<in>set (elems (recipes s)). \<forall>t\<in>set (elems (Tags r)).
          \<not> EqualFold U t (Query c ''tag'')) \<longrightarrow>
      snd (SearchRecipesHandler U c s) = \<lparr>status = 200, body = Some (J_array [])\<rparr>)
   \<and> json_Recipes make0 = Some (J_array []) \<and> json_Recipes nil_slice = Some J_null"
proof -
  have "filter (\<lambda>r. \<exists>t\<in>set (elems (Tags r)). EqualFold U t (Query c ''tag''))
          (elems (recipes s)) = []"
    if "\<forall>r\<in>set (elems (recipes s)). \<forall>t\<in>set (elems (Tags r)). \<not> EqualFold U t (Query c ''tag'')"
    using that by (simp add: filter_empty_conv)
  then show ?thesis
    by (auto simp: ListRecipeHandler_def SearchRecipesHandler_eq make0_def json_Recipes_def
        JSON_def StatusOK_def)
qed

text \<open>The empty collection listed, and a cache searched for a tag nobody has.\<close>

theorem empty_result_is_array_witness:
  "Find (collection state0) (fault env_ok) = Inr []
   \<and> snd (ListRecipeHandler (Decode_struct ascii_ToLower no_Parse) env_ok state0) =
       \<lparr>status = 200, body = Some (J_array [])\<rparr>
   \<and> list_all (\<lambda>r. list_all (\<lambda>t. \<not> EqualFold ascii_only t (Query (get_search ''french'') ''tag''))
                       (elems (Tags r)))
         (elems (recipes state_cached))
   \<and> snd (SearchRecipesHandler ascii_only (get_search ''french'') state_cached)
       = \<lparr>status = 200, body = Some (J_array [])\<rparr>"
  using empty_result_is_array [of state0 env_ok "Decode_struct ascii_ToLower no_Parse"]
    empty_result_is_array [of state_cached _ _ ascii_only "get_search ''french''"]
  by (simp add: state0_def env_ok_def state_cached_def get_search_def soup_def pasta_def
      ascii_only_def Find_def Query_def list_all_iff)

subsection \<open>Rejected bodies\<close>




subsection \<open>Create\<close>

lemma NewRecipeHandler_cases:
  assumes "ShouldBindJSON c = Inr r"
  shows "NewRecipeHandler c env s =
     (let recipe = r\<lparr>ID := NewObjectID s env, PublishedAt := Now env\<rparr>;
          ins = InsertOne (collection s) (bson_Recipe recipe) (fault env)
      in case snd ins of
           Some e \<Rightarrow>
             (s\<lparr>objectIDCounter := objectIDCounter s + 1, collection := fst ins,
                err := Some e, stdout := stdout s @ [e]\<rparr>,
              \<lparr>status = 500,
               body = Some (J_object
                        [(''error'', J_string ''Error while inserting a new recipe'')])\<rparr>)
         | None \<Rightarrow>
             (s\<lparr>objectIDCounter := objectIDCounter s + 1, collection := fst ins,
                err := None\<rparr>,
              \<lparr>status = 200, body = json_Recipe recipe\<rparr>))"
  using assms
  by (simp add: NewRecipeHandler_def Let_def JSON_def StatusOK_def
      StatusInternalServerError_def gin_H_def split: option.splits)


lemma InsertOne_fst:
  "fst (InsertOne coll d f) = (if snd (InsertOne coll d f) = None then coll @ [d] else coll)"
  by (simp add: InsertOne_def split: option.splits)




text \<open>
  C5. When the insert fails, the answer is status 500 with the fixed text
  \<^verbatim>\<open>Error while inserting a new recipe\<close>, the same for every error; the error's own text
  goes to standard output and the collection is what it was.
\<close>

theorem insert_failure_generic_message:
  assumes "ShouldBindJSON c = Inr r"
    and "snd (InsertOne (collection s)
               (bson_Recipe (r\<lparr>ID := NewObjectID s env, PublishedAt := Now env\<rparr>))
               (fault env)) = Some e"
  shows "snd (NewRecipeHandler c env s) =
           \<lparr>status = 500,
            body = Some (J_object [(''error'', J_string ''Error while inserting a new recipe'')])\<rparr>
       \<and> stdout (fst (NewRecipeHandler c env s)) = stdout s @ [e]
       \<and> collection (fst (NewRecipeHandler c env s)) = collection s"
  using assms(2) by (simp add: NewRecipeHandler_cases [OF assms(1)] Let_def InsertOne_fst)

text \<open>Pasta sent while the database is down.\<close>

theorem insert_failure_generic_message_witness:
  "ShouldBindJSON post_pasta = Inr pasta
   \<and> snd (InsertOne (collection state0)
           (bson_Recipe (pasta\<lparr>ID := NewObjectID state0 env_down, PublishedAt := Now env_down\<rparr>))
           (fault env_down)) = Some ''connection refused''
   \<and> snd (NewRecipeHandler post_pasta env_down state0) =
           \<lparr>status = 500,
            body = Some (J_object [(''error'', J_string ''Error while inserting a new recipe'')])\<rparr>
   \<and> stdout (fst (NewRecipeHandler post_pasta env_down state0)) = [''connection refused'']"
proof -
  have h1: "ShouldBindJSON post_pasta = Inr pasta"
    by (simp add: ShouldBindJSON_def post_pasta_def body_pasta_def)
  have h2: "snd (InsertOne (collection state0)
           (bson_Recipe (pasta\<lparr>ID := NewObjectID state0 env_down, PublishedAt := Now env_down\<rparr>))
           (fault env_down)) = Some ''connection refused''"
    by (simp add: InsertOne_def env_down_def)
  from h1 h2 insert_failure_generic_message [OF h1 h2] show ?thesis
    by (simp add: state0_def)
qed




subsection \<open>Update\<close>

lemma map_of_set_fields:
  "k \<notin> fst ` set upd \<Longrightarrow> map_of (set_fields upd d) k = map_of d k"
  by (induction upd d rule: set_fields.induct) (auto simp: update_conv')

lemma update_first_no_match:
  "\<forall>d\<in>set ds. \<not> matches flt d \<Longrightarrow> update_first flt upd ds = ds"
  by (induction ds) auto

lemma update_first_split:
  "update_first flt upd ds = ds \<or>
   (\<exists>pre d post. ds = pre @ d # post \<and> matches flt d \<and> (\<forall>x\<in>set pre. \<not> matches flt x) \<and>
      update_first flt upd ds = pre @ set_fields upd d # post)"
proof (induction ds)
  case Nil
  then show ?case by simp
next
  case (Cons a ds)
  show ?case
  proof (cases "matches flt a")
    case True
    then have "a # ds = [] @ a # ds \<and> matches flt a \<and> (\<forall>x\<in>set []. \<not> matches flt x) \<and>
      update_first flt upd (a # ds) = [] @ set_fields upd a # ds"
      by simp
    then show ?thesis by blast
  next
    case False
    from Cons.IH show ?thesis
    proof
      assume "update_first flt upd ds = ds"
      with False show ?thesis by simp
    next
      assume "\<exists>pre d post. ds = pre @ d # post \<and> matches flt d \<and>
        (\<forall>x\<in>set pre. \<not> matches flt x) \<and> update_first flt upd ds = pre @ set_fields upd d # post"
      then obtain pre d post where h: "ds = pre @ d # post" "matches flt d"
        "\<forall>x\<in>set pre. \<not> matches flt x" "update_first flt upd ds = pre @ set_fields upd d # post"
        by blast
      with False have "a # ds = (a # pre) @ d # post \<and> matches flt d \<and>
        (\<forall>x\<in>set (a # pre). \<not> matches flt x) \<and>
        update_first flt upd (a # ds) = (a # pre) @ set_fields upd d # post"
        by simp
      then show ?thesis by blast
    qed
  qed
qed

lemma update_first_keeps_field:
  "k \<notin> fst ` set upd \<Longrightarrow>
   map (\<lambda>d. map_of d k) (update_first flt upd ds) = map (\<lambda>d. map_of d k) ds"
  by (induction ds) (auto simp: map_of_set_fields)

lemma matches_id: "matches [(''_id'', v)] d \<longleftrightarrow> map_of d ''_id'' = Some v"
  by (simp add: matches_def)

lemma UpdateRecipeHandler_cases:
  assumes "ShouldBindJSON c = Inr r"
  shows "UpdateRecipeHandler c env s =
     (case fault env of
        Some e \<Rightarrow>
          (s\<lparr>err := Some e, stdout := stdout s @ [e]\<rparr>,
           \<lparr>status = 500, body = Some (J_object [(''error'', J_string e)])\<rparr>)
      | None \<Rightarrow>
          (s\<lparr>collection :=
                update_first [(''_id'', B_ObjectID (fst (ObjectIDFromHex (Param c ''id''))))]
                  [(''name'', B_String (Name r)),
                   (''instructions'', bson_strings (Instructions r)),
                   (''ingredients'', bson_strings (Ingredients r)),
                   (''tags'', bson_strings (Tags r))]
                  (collection s),
              err := None\<rparr>,
           \<lparr>status = 200,
            body = Some (J_object [(''message'', J_string ''Recipe has been updated'')])\<rparr>))"
  using assms
  by (simp add: UpdateRecipeHandler_def UpdateOne_def Let_def JSON_def StatusOK_def
      StatusInternalServerError_def gin_H_def split: option.splits)

lemma UpdateRecipeHandler_collection:
  assumes "ShouldBindJSON c = Inr r"
  shows "collection (fst (UpdateRecipeHandler c env s)) = collection s \<or>
         collection (fst (UpdateRecipeHandler c env s)) =
           update_first [(''_id'', B_ObjectID (fst (ObjectIDFromHex (Param c ''id''))))]
                  [(''name'', B_String (Name r)),
                   (''instructions'', bson_strings (Instructions r)),
                   (''ingredients'', bson_strings (Ingredients r)),
                   (''tags'', bson_strings (Tags r))]
                  (collection s)"
  by (simp add: UpdateRecipeHandler_cases [OF assms] split: option.splits)

lemma ObjectIDFromHex_error:
  "snd (ObjectIDFromHex x) = Some pe \<Longrightarrow> fst (ObjectIDFromHex x) = NilObjectID"
  by (simp add: ObjectIDFromHex_def split: if_splits option.splits)

text \<open>
  C2, as stated, fails: at the path id \<^verbatim>\<open>xyz\<close>, which is no object id and which no
  document matches, the one stored document, whose \<^verbatim>\<open>_id\<close> is the nil object id, is
  rewritten. The failed parse returns the nil id and the filter is built from it.
\<close>

theorem update_frame_counterexample:
  "ShouldBindJSON (put_pasta ''xyz'') = Inr pasta
   \<and> Param (put_pasta ''xyz'') ''id'' = ''xyz''
   \<and> snd (ObjectIDFromHex ''xyz'') = Some ''the provided hex string is not a valid ObjectID''
   \<and> collection state_nil_id = [[(''_id'', B_ObjectID 0), (''name'', B_String ''Zero'')]]
   \<and> collection (fst (UpdateRecipeHandler (put_pasta ''xyz'') env_ok state_nil_id)) =
       [[(''_id'', B_ObjectID 0), (''name'', B_String ''Pasta''),
         (''instructions'', B_Array [B_String ''boil'']),
         (''ingredients'', B_Array [B_String ''pasta'', B_String ''water'']),
         (''tags'', B_Array [B_String ''italian''])]]"
proof -
  have h: "ShouldBindJSON (put_pasta ''xyz'') = Inr pasta"
    by (simp add: ShouldBindJSON_def put_pasta_def body_pasta_def)
  have p: "Param (put_pasta ''xyz'') ''id'' = ''xyz''"
    by (simp add: Param_def put_pasta_def)
  have oid: "ObjectIDFromHex ''xyz'' = (0, Some ''the provided hex string is not a valid ObjectID'')"
    by (simp add: ObjectIDFromHex_def NilObjectID_def)
  have before: "collection state_nil_id = [[(''_id'', B_ObjectID 0), (''name'', B_String ''Zero'')]]"
    by (simp add: state_nil_id_def doc_nil_id_def)
  have after: "collection (fst (UpdateRecipeHandler (put_pasta ''xyz'') env_ok state_nil_id)) =
       [[(''_id'', B_ObjectID 0), (''name'', B_String ''Pasta''),
         (''instructions'', B_Array [B_String ''boil'']),
         (''ingredients'', B_Array [B_String ''pasta'', B_String ''water'']),
         (''tags'', B_Array [B_String ''italian''])]]"
    unfolding UpdateRecipeHandler_cases [OF h] p oid
    by (simp add: matches_def bson_strings_def env_ok_def state_nil_id_def doc_nil_id_def
        pasta_def)
  from h p oid before after show ?thesis by simp
qed

text \<open>
  C2, amended. For every update request with a well-formed body, the collection
  afterwards is the collection before, or the collection before with one document
  replaced by itself with \<^verbatim>\<open>name\<close>, \<^verbatim>\<open>instructions\<close>, \<^verbatim>\<open>ingredients\<close> and \<^verbatim>\<open>tags\<close> set, every
  other field as it was; the \<^verbatim>\<open>_id\<close> and the \<^verbatim>\<open>publishedAt\<close> of every document are what
  they were. When the path identifier parses as an object id, the document replaced is
  one whose \<^verbatim>\<open>_id\<close> is that id, and no other document is touched.
\<close>

theorem update_frame:
  assumes "ShouldBindJSON c = Inr r"
  shows "(collection (fst (UpdateRecipeHandler c env s)) = collection s \<or>
          (\<exists>pre d post.
             collection s = pre @ d # post \<and>
             collection (fst (UpdateRecipeHandler c env s)) =
               pre @ set_fields [(''name'', B_String (Name r)),
                                 (''instructions'', bson_strings (Instructions r)),
                                 (''ingredients'', bson_strings (Ingredients r)),
                                 (''tags'', bson_strings (Tags r))] d # post \<and>
             (\<forall>k. k \<notin> {''name'', ''instructions'', ''ingredients'', ''tags''} \<longrightarrow>
                map_of (set_fields [(''name'', B_String (Name r)),
                                 (''instructions'', bson_strings (Instructions r)),
                                 (''ingredients'', bson_strings (Ingredients r)),
                                 (''tags'', bson_strings (Tags r))] d) k = map_of d k) \<and>
             (snd (ObjectIDFromHex (Param c ''id'')) = None \<longrightarrow>
                map_of d ''_id'' = Some (B_ObjectID (fst (ObjectIDFromHex (Param c ''id'')))))))
       \<and> map (\<lambda>d. map_of d ''_id'') (collection (fst (UpdateRecipeHandler c env s))) =
           map (\<lambda>d. map_of d ''_id'') (collection s)
       \<and> map (\<lambda>d. map_of d ''publishedAt'') (collection (fst (UpdateRecipeHandler c env s))) =
           map (\<lambda>d. map_of d ''publishedAt'') (collection s)"
proof -
  let ?flt = "[(''_id'', B_ObjectID (fst (ObjectIDFromHex (Param c ''id''))))]"
  let ?upd = "[(''name'', B_String (Name r)),
               (''instructions'', bson_strings (Instructions r)),
               (''ingredients'', bson_strings (Ingredients r)),
               (''tags'', bson_strings (Tags r))]"
  let ?after = "collection (fst (UpdateRecipeHandler c env s))"
  have keys: "fst ` set ?upd = {''name'', ''instructions'', ''ingredients'', ''tags''}"
    by auto
  have frame: "\<forall>k. k \<notin> {''name'', ''instructions'', ''ingredients'', ''tags''} \<longrightarrow>
      map_of (set_fields ?upd d) k = map_of d k" for d
    using map_of_set_fields [of _ ?upd d] unfolding keys by blast
  have after: "?after = collection s \<or> ?after = update_first ?flt ?upd (collection s)"
    by (rule UpdateRecipeHandler_collection [OF assms])
  have one: "?after = collection s \<or>
      (\<exists>pre d post. collection s = pre @ d # post \<and>
         ?after = pre @ set_fields ?upd d # post \<and>
         (\<forall>k. k \<notin> {''name'', ''instructions'', ''ingredients'', ''tags''} \<longrightarrow>
            map_of (set_fields ?upd d) k = map_of d k) \<and>
         (snd (ObjectIDFromHex (Param c ''id'')) = None \<longrightarrow>
            map_of d ''_id'' = Some (B_ObjectID (fst (ObjectIDFromHex (Param c ''id''))))))"
    using after update_first_split [of ?flt ?upd "collection s"] frame
    unfolding matches_id by metis
  have id: "map (\<lambda>d. map_of d ''_id'') ?after = map (\<lambda>d. map_of d ''_id'') (collection s)"
    using after update_first_keeps_field [of "''_id''" ?upd ?flt "collection s"] by auto
  have pub: "map (\<lambda>d. map_of d ''publishedAt'') ?after =
      map (\<lambda>d. map_of d ''publishedAt'') (collection s)"
    using after update_first_keeps_field [of "''publishedAt''" ?upd ?flt "collection s"] by auto
  from one id pub show ?thesis by blast
qed

text \<open>
  Pasta put at the id of the second of two stored documents: the first is untouched, the
  second keeps its id and date.
\<close>

theorem update_frame_witness:
  "ShouldBindJSON (put_pasta ''6543210fedcba9876543210f'') = Inr pasta
   \<and> ObjectIDFromHex (Param (put_pasta ''6543210fedcba9876543210f'') ''id'') =
       (0x6543210fedcba9876543210f, None)
   \<and> collection (fst (UpdateRecipeHandler (put_pasta ''6543210fedcba9876543210f'') env_ok state_stored)) =
       [doc_other,
        [(''_id'', B_ObjectID 0x6543210fedcba9876543210f), (''name'', B_String ''Pasta''),
         (''tags'', B_Array [B_String ''italian'']),
         (''ingredients'', B_Array [B_String ''pasta'', B_String ''water'']),
         (''instructions'', B_Array [B_String ''boil'']),
         (''publishedAt'', B_DateTime 1600000000000)]]
   \<and> map (\<lambda>d. map_of d ''_id'')
        (collection (fst (UpdateRecipeHandler (put_pasta ''6543210fedcba9876543210f'') env_ok state_stored))) =
       [Some (B_ObjectID 0x0123456789abcdef01234567), Some (B_ObjectID 0x6543210fedcba9876543210f)]
   \<and> map (\<lambda>d. map_of d ''publishedAt'')
        (collection (fst (UpdateRecipeHandler (put_pasta ''6543210fedcba9876543210f'') env_ok state_stored))) =
       [Some (B_DateTime 1500000000000), Some (B_DateTime 1600000000000)]"
proof -
  have h: "ShouldBindJSON (put_pasta ''6543210fedcba9876543210f'') = Inr pasta"
    by (simp add: ShouldBindJSON_def put_pasta_def body_pasta_def)
  have p: "Param (put_pasta ''6543210fedcba9876543210f'') ''id'' = ''6543210fedcba9876543210f''"
    by (simp add: Param_def put_pasta_def)
  have oid: "ObjectIDFromHex ''6543210fedcba9876543210f'' = (0x6543210fedcba9876543210f, None)"
    by (simp add: ObjectIDFromHex_def fromHexChar_def)
  have c: "collection (fst (UpdateRecipeHandler (put_pasta ''6543210fedcba9876543210f'') env_ok state_stored)) =
       [doc_other,
        [(''_id'', B_ObjectID 0x6543210fedcba9876543210f), (''name'', B_String ''Pasta''),
         (''tags'', B_Array [B_String ''italian'']),
         (''ingredients'', B_Array [B_String ''pasta'', B_String ''water'']),
         (''instructions'', B_Array [B_String ''boil'']),
         (''publishedAt'', B_DateTime 1600000000000)]]"
    unfolding UpdateRecipeHandler_cases [OF h] p oid
    by (simp add: matches_def bson_strings_def env_ok_def
        state_stored_def doc_other_def doc_old_def pasta_def)
  from update_frame [OF h, of env_ok state_stored] h c show ?thesis
    unfolding p oid
    by (simp add: env_ok_def state_stored_def doc_other_def doc_old_def pasta_def)
qed

text \<open>
  C6, as stated, fails twice over, at the path id \<^verbatim>\<open>xyz\<close>, which does not parse. With the
  database down the answer is status 500. With the database up and a document whose
  \<^verbatim>\<open>_id\<close> is the nil object id in the collection, that document is updated: the failed
  parse returns the nil id, and the filter is built from it.
\<close>

theorem update_bad_id_counterexample:
  "ShouldBindJSON (put_pasta ''xyz'') = Inr pasta
   \<and> snd (ObjectIDFromHex (Param (put_pasta ''xyz'') ''id'')) =
       Some ''the provided hex string is not a valid ObjectID''
   \<and> status (snd (UpdateRecipeHandler (put_pasta ''xyz'') env_down state_stored)) = 500
   \<and> status (snd (UpdateRecipeHandler (put_pasta ''xyz'') env_ok state_nil_id)) = 200
   \<and> collection (fst (UpdateRecipeHandler (put_pasta ''xyz'') env_ok state_nil_id)) =
       [[(''_id'', B_ObjectID 0), (''name'', B_String ''Pasta''),
         (''instructions'', B_Array [B_String ''boil'']),
         (''ingredients'', B_Array [B_String ''pasta'', B_String ''water'']),
         (''tags'', B_Array [B_String ''italian''])]]
   \<and> collection (fst (UpdateRecipeHandler (put_pasta ''xyz'') env_ok state_nil_id)) \<noteq>
       collection state_nil_id"
proof -
  have h: "ShouldBindJSON (put_pasta ''xyz'') = Inr pasta"
    by (simp add: ShouldBindJSON_def put_pasta_def body_pasta_def)
  have p: "Param (put_pasta ''xyz'') ''id'' = ''xyz''"
    by (simp add: Param_def put_pasta_def)
  have oid: "ObjectIDFromHex ''xyz'' = (0, Some ''the provided hex string is not a valid ObjectID'')"
    by (simp add: ObjectIDFromHex_def NilObjectID_def)
  have down: "status (snd (UpdateRecipeHandler (put_pasta ''xyz'') env_down state_stored)) = 500"
    unfolding UpdateRecipeHandler_cases [OF h] by (simp add: env_down_def)
  have up: "UpdateRecipeHandler (put_pasta ''xyz'') env_ok state_nil_id =
      (state_nil_id\<lparr>collection :=
         [[(''_id'', B_ObjectID 0), (''name'', B_String ''Pasta''),
           (''instructions'', B_Array [B_String ''boil'']),
           (''ingredients'', B_Array [B_String ''pasta'', B_String ''water'']),
           (''tags'', B_Array [B_String ''italian''])]]\<rparr>,
       \<lparr>status = 200,
        body = Some (J_object [(''message'', J_string ''Recipe has been updated'')])\<rparr>)"
    unfolding UpdateRecipeHandler_cases [OF h] p oid
    by (simp add: matches_def bson_strings_def env_ok_def state_nil_id_def doc_nil_id_def
        pasta_def)
  show ?thesis
    unfolding up by (simp add: h p oid down) (simp add: state_nil_id_def doc_nil_id_def)
qed

text \<open>
  C6, amended. For every update request with a well-formed body whose path id does not
  parse, the parse error is dropped. When the call on the collection reports no error,
  the answer is status 200 with the confirmation; when it reports one, status 500 with
  its text. When no document of the collection carries the nil object id, the collection
  is what it was.
\<close>

theorem update_bad_id_tolerated:
  assumes "ShouldBindJSON c = Inr r"
    and "snd (ObjectIDFromHex (Param c ''id'')) = Some pe"
  shows "(fault env = None \<longrightarrow>
            snd (UpdateRecipeHandler c env s) =
              \<lparr>status = 200,
               body = Some (J_object [(''message'', J_string ''Recipe has been updated'')])\<rparr>)
       \<and> (\<forall>e. fault env = Some e \<longrightarrow>
            snd (UpdateRecipeHandler c env s) =
              \<lparr>status = 500, body = Some (J_object [(''error'', J_string e)])\<rparr>)
       \<and> ((\<forall>d\<in>set (collection s). map_of d ''_id'' \<noteq> Some (B_ObjectID NilObjectID)) \<longrightarrow>
            collection (fst (UpdateRecipeHandler c env s)) = collection s)"
proof -
  have nil: "fst (ObjectIDFromHex (Param c ''id'')) = NilObjectID"
    by (rule ObjectIDFromHex_error [OF assms(2)])
  have same: "update_first [(''_id'', B_ObjectID NilObjectID)] upd (collection s) = collection s"
    if "\<forall>d\<in>set (collection s). map_of d ''_id'' \<noteq> Some (B_ObjectID NilObjectID)" for upd
    using that by (intro update_first_no_match) (simp add: matches_id)
  show ?thesis
    unfolding UpdateRecipeHandler_cases [OF assms(1)] nil
    using same by (cases "fault env") auto
qed

text \<open>
  The id \<^verbatim>\<open>xyz\<close> over two documents with ids of their own: status 200, nothing changed;
  and with the database down, status 500.
\<close>

theorem update_bad_id_tolerated_witness:
  "ShouldBindJSON (put_pasta ''xyz'') = Inr pasta
   \<and> snd (ObjectIDFromHex (Param (put_pasta ''xyz'') ''id'')) =
       Some ''the provided hex string is not a valid ObjectID''
   \<and> fault env_ok = None
   \<and> list_all (\<lambda>d. map_of d ''_id'' \<noteq> Some (B_ObjectID NilObjectID)) (collection state_stored)
   \<and> snd (UpdateRecipeHandler (put_pasta ''xyz'') env_ok state_stored) =
       \<lparr>status = 200,
        body = Some (J_object [(''message'', J_string ''Recipe has been updated'')])\<rparr>
   \<and> collection (fst (UpdateRecipeHandler (put_pasta ''xyz'') env_ok state_stored)) =
       collection state_stored
   \<and> fault env_down = Some ''connection refused''
   \<and> snd (UpdateRecipeHandler (put_pasta ''xyz'') env_down state_stored) =
       \<lparr>status = 500, body = Some (J_object [(''error'', J_string ''connection refused'')])\<rparr>"
proof -
  have h1: "ShouldBindJSON (put_pasta ''xyz'') = Inr pasta"
    by (simp add: ShouldBindJSON_def put_pasta_def body_pasta_def)
  have h2: "snd (ObjectIDFromHex (Param (put_pasta ''xyz'') ''id'')) =
       Some ''the provided hex string is not a valid ObjectID''"
    by (simp add: ObjectIDFromHex_def Param_def put_pasta_def)
  have f1: "fault env_ok = None" and f2: "fault env_down = Some ''connection refused''"
    by (simp_all add: env_ok_def env_down_def)
  have ids: "\<forall>d\<in>set (collection state_stored). map_of d ''_id'' \<noteq> Some (B_ObjectID NilObjectID)"
    by (simp add: state_stored_def doc_other_def doc_old_def NilObjectID_def)
  from update_bad_id_tolerated [OF h1 h2, of env_ok state_stored]
    update_bad_id_tolerated [OF h1 h2, of env_down state_stored] h1 h2 f1 f2 ids
  show ?thesis by (simp add: list_all_iff)
qed

subsection \<open>List\<close>

lemma cursor_loop_eq:
  "cursor_loop Decode cur (Slice acc) = Slice (acc @ map (\<lambda>d. fst (Decode d zero_Recipe)) cur)"
  by (induction cur arbitrary: acc) simp_all

lemma ListRecipeHandler_eq:
  assumes "Find (collection s) (fault env) = Inr cur"
  shows "ListRecipeHandler Decode env s =
     (s, JSON StatusOK (json_Recipes (Slice (map (\<lambda>d. fst (Decode d zero_Recipe)) cur))))"
  using assms by (simp add: ListRecipeHandler_def make0_def cursor_loop_eq)

text \<open>
  C10, as stated, fails twice. A document with a good \<^verbatim>\<open>_id\<close> and \<^verbatim>\<open>name\<close> and a number
  for \<^verbatim>\<open>tags\<close> fails to decode at \<^verbatim>\<open>tags\<close>, after the id and the name have been written
  into the recipe, and the entry appended is that recipe, not the zero one. And a
  document dated in year 10000 decodes, but its date has no JSON form: the answer has
  no body, so no entry for the document.
\<close>

theorem list_decode_counterexample:
  "snd (Decode_struct ascii_ToLower no_Parse doc_bad_tags zero_Recipe) \<noteq> None
   \<and> body (snd (ListRecipeHandler (Decode_struct ascii_ToLower no_Parse) env_ok state_bad_tags)) =
       Some (J_array [json_object_Recipe (zero_Recipe\<lparr>ID := 3, Name := ''Stew''\<rparr>)])
   \<and> json_object_Recipe (zero_Recipe\<lparr>ID := 3, Name := ''Stew''\<rparr>) \<noteq>
       json_object_Recipe zero_Recipe
   \<and> snd (Decode_struct ascii_ToLower no_Parse doc_year_10000 zero_Recipe) = None
   \<and> length (collection state_year_10000) = 1
   \<and> snd (ListRecipeHandler (Decode_struct ascii_ToLower no_Parse) env_ok state_year_10000) =
       \<lparr>status = 200, body = None\<rparr>"
proof -
  have d1: "Decode_struct ascii_ToLower no_Parse doc_bad_tags zero_Recipe =
      (zero_Recipe\<lparr>ID := 3, Name := ''Stew''\<rparr>, Some ''error decoding key tags'')"
    by (simp add: decode_element_def field_of_key_def field_names_def decode_ObjectID_def
        decode_string_def decode_slice_def doc_bad_tags_def)
  have d2: "Decode_struct ascii_ToLower no_Parse doc_year_10000 zero_Recipe =
      (zero_Recipe\<lparr>ID := 4, Name := ''Far'',
         PublishedAt := UTC 253402300800000000000\<rparr>, None)"
    by (simp add: decode_element_def field_of_key_def field_names_def decode_ObjectID_def
        decode_string_def decode_Time_def doc_year_10000_def)
  have z: "json_Time_ok (PublishedAt zero_Recipe)"
    by (simp add: json_Time_ok_def zero_Recipe_def zero_Time_def UTC_def)
  have far: "\<not> json_Time_ok (UTC 253402300800000000000)"
    by (simp add: json_Time_ok_def UTC_def)
  have f1: "Find (collection state_bad_tags) (fault env_ok) = Inr [doc_bad_tags]"
    by (simp add: Find_def state_bad_tags_def env_ok_def)
  have f2: "Find (collection state_year_10000) (fault env_ok) = Inr [doc_year_10000]"
    by (simp add: Find_def state_year_10000_def env_ok_def)
  have b1: "body (snd (ListRecipeHandler (Decode_struct ascii_ToLower no_Parse) env_ok
        state_bad_tags)) =
       Some (J_array [json_object_Recipe (zero_Recipe\<lparr>ID := 3, Name := ''Stew''\<rparr>)])"
    unfolding ListRecipeHandler_eq [OF f1]
    by (simp add: d1 z json_Recipes_Slice JSON_def del: Decode_struct.simps)
  have b2: "snd (ListRecipeHandler (Decode_struct ascii_ToLower no_Parse) env_ok
        state_year_10000) = \<lparr>status = 200, body = None\<rparr>"
    unfolding ListRecipeHandler_eq [OF f2]
    by (simp add: d2 far json_Recipes_Slice JSON_def StatusOK_def del: Decode_struct.simps)
  have ne: "json_object_Recipe (zero_Recipe\<lparr>ID := 3, Name := ''Stew''\<rparr>) \<noteq>
       json_object_Recipe zero_Recipe"
    by (simp add: json_object_Recipe_def zero_Recipe_def)
  have l: "length (collection state_year_10000) = 1"
    by (simp add: state_year_10000_def)
  from d1 d2 b1 b2 ne l show ?thesis by simp
qed

text \<open>
  C10, amended. For every document the cursor returns, whether it decodes or not, the
  list handler drops the decoder's error and appends the recipe as the decoder left it,
  having started from the zero recipe: the zero recipe itself where the decoder wrote
  nothing before it failed. The answer is status 200 and the state is what it was. When
  the date of every appended recipe can be written as JSON, the body has exactly one
  entry for each document of the cursor, in the cursor's order; otherwise there is no
  body.
\<close>

theorem list_one_entry_per_document:
  assumes "Find (collection s) (fault env) = Inr cur"
  shows "ListRecipeHandler Decode env s =
           (s, JSON StatusOK (json_Recipes (Slice (map (\<lambda>d. fst (Decode d zero_Recipe)) cur))))
       \<and> status (snd (ListRecipeHandler Decode env s)) = 200
       \<and> (list_all (\<lambda>d. json_Time_ok (PublishedAt (fst (Decode d zero_Recipe)))) cur \<longrightarrow>
            body (snd (ListRecipeHandler Decode env s)) =
              Some (J_array (map (\<lambda>d. json_object_Recipe (fst (Decode d zero_Recipe))) cur)))
       \<and> (\<not> list_all (\<lambda>d. json_Time_ok (PublishedAt (fst (Decode d zero_Recipe)))) cur \<longrightarrow>
            body (snd (ListRecipeHandler Decode env s)) = None)"
  unfolding ListRecipeHandler_eq [OF assms]
  by (simp add: json_Recipes_Slice JSON_def StatusOK_def list_all_iff comp_def)

text \<open>
  Two documents, the first failing at its first element: two entries, the first the zero
  recipe.
\<close>

theorem list_one_entry_per_document_witness:
  "Find (collection state_bad_id) (fault env_ok) = Inr [doc_bad_id, doc_nil_id]
   \<and> Decode_struct ascii_ToLower no_Parse doc_bad_id zero_Recipe =
       (zero_Recipe, Some ''error decoding key _id'')
   \<and> list_all (\<lambda>d. json_Time_ok
                 (PublishedAt (fst (Decode_struct ascii_ToLower no_Parse d zero_Recipe))))
       [doc_bad_id, doc_nil_id]
   \<and> ListRecipeHandler (Decode_struct ascii_ToLower no_Parse) env_ok state_bad_id =
       (state_bad_id,
        \<lparr>status = 200,
         body = Some (J_array [json_object_Recipe zero_Recipe,
                               json_object_Recipe (zero_Recipe\<lparr>Name := ''Zero''\<rparr>)])\<rparr>)"
proof -
  have h: "Find (collection state_bad_id) (fault env_ok) = Inr [doc_bad_id, doc_nil_id]"
    by (simp add: Find_def state_bad_id_def env_ok_def)
  have d1: "Decode_struct ascii_ToLower no_Parse doc_bad_id zero_Recipe =
      (zero_Recipe, Some ''error decoding key _id'')"
    by (simp add: decode_element_def field_of_key_def field_names_def decode_ObjectID_def
        doc_bad_id_def)
  have d2: "Decode_struct ascii_ToLower no_Parse doc_nil_id zero_Recipe =
      (zero_Recipe\<lparr>Name := ''Zero''\<rparr>, None)"
    by (simp add: decode_element_def field_of_key_def field_names_def decode_ObjectID_def
        decode_string_def doc_nil_id_def zero_Recipe_def NilObjectID_def)
  have z1: "json_Time_ok (PublishedAt zero_Recipe)"
    by (simp add: json_Time_ok_def zero_Recipe_def zero_Time_def UTC_def)
  have z2: "json_Time_ok (PublishedAt (zero_Recipe\<lparr>Name := ''Zero''\<rparr>))"
    by (simp add: json_Time_ok_def zero_Recipe_def zero_Time_def UTC_def)
  have k: "list_all (\<lambda>d. json_Time_ok
                 (PublishedAt (fst (Decode_struct ascii_ToLower no_Parse d zero_Recipe))))
       [doc_bad_id, doc_nil_id]"
    by (simp add: d1 d2 z1 z2 del: Decode_struct.simps)
  have "ListRecipeHandler (Decode_struct ascii_ToLower no_Parse) env_ok state_bad_id =
      (state_bad_id,
       JSON StatusOK (json_Recipes (Slice
         (map (\<lambda>d. fst (Decode_struct ascii_ToLower no_Parse d zero_Recipe))
            [doc_bad_id, doc_nil_id]))))"
    using list_one_entry_per_document [OF h, of "Decode_struct ascii_ToLower no_Parse"]
    by blast
  then have r: "ListRecipeHandler (Decode_struct ascii_ToLower no_Parse) env_ok state_bad_id =
       (state_bad_id,
        \<lparr>status = 200,
         body = Some (J_array [json_object_Recipe zero_Recipe,
                               json_object_Recipe (zero_Recipe\<lparr>Name := ''Zero''\<rparr>)])\<rparr>)"
    by (simp add: d1 d2 z1 z2 json_Recipes_Slice JSON_def StatusOK_def
        del: Decode_struct.simps)
  from h d1 k r show ?thesis by blast
qed

end
